theory Spec2Isabelle
  imports Complex_Main
begin

section \<open>Python values, exceptions and call binding\<close>

text \<open>
  The module \<^verbatim>\<open>mlperf_prof/__init__.py\<close> is a thin layer over the external engine
  \<^verbatim>\<open>timemory\<close>. The values that cross its interface are strings, numbers, \<^verbatim>\<open>None\<close>
  and lists of component names. A list is a mutable object, so a list value is a
  reference into a store of list objects.
\<close>

datatype pyval =
    PNone
  | PBool bool
  | PInt int
  | PFloat real
  | PStr string
  | PRef nat

text \<open>
  An exception carries its class, its message and its traceback. For exceptions raised
  by the interpreter itself (argument binding, name lookup) only the class is taken from
  Python; the message is a short description.
\<close>

datatype exc_kind =
    RuntimeError
  | TypeError
  | NameError
  | AttributeError
  | ImportError
  | OtherError string

datatype exc = Exc (exc_kind: exc_kind) (exc_msg: string) (exc_tb: "string list")

type_synonym kwargs = "(string \<times> pyval) list"

text \<open>
  A \<^verbatim>\<open>def f(self, p1, p2=d, *args, **kwargs)\<close> header without \<^verbatim>\<open>self\<close>: the named
  parameters with their defaults, and whether \<^verbatim>\<open>*args\<close> and \<^verbatim>\<open>**kwargs\<close> are present.
\<close>

record signature =
  params :: "(string \<times> pyval option) list"
  varargs :: bool
  varkw :: bool

record bound =
  named :: kwargs
  star_args :: "pyval list"
  star_kw :: kwargs

fun bind_pos :: "(string \<times> pyval option) list \<Rightarrow> pyval list \<Rightarrow> kwargs \<times> pyval list" where
  "bind_pos [] vs = ([], vs)"
| "bind_pos (p # ps) [] = ([], [])"
| "bind_pos ((n, d) # ps) (v # vs) = (case bind_pos ps vs of (f, r) \<Rightarrow> ((n, v) # f, r))"

fun bind_kw :: "string list \<Rightarrow> bool \<Rightarrow> kwargs \<Rightarrow> kwargs \<Rightarrow> kwargs \<Rightarrow> exc + (kwargs \<times> kwargs)" where
  "bind_kw names vk filled extra [] = Inr (filled, extra)"
| "bind_kw names vk filled extra ((k, v) # kws) =
     (if k \<in> set names then
        (if k \<in> set (map fst filled)
         then Inl (Exc TypeError ''got multiple values for argument'' [])
         else bind_kw names vk (filled @ [(k, v)]) extra kws)
      else if vk then bind_kw names vk filled (extra @ [(k, v)]) kws
      else Inl (Exc TypeError ''got an unexpected keyword argument'' []))"

fun fill_defaults :: "(string \<times> pyval option) list \<Rightarrow> kwargs \<Rightarrow> exc + kwargs" where
  "fill_defaults [] filled = Inr []"
| "fill_defaults ((n, d) # ps) filled =
     (case (case map_of filled n of Some v \<Rightarrow> Some v | None \<Rightarrow> d) of
        None \<Rightarrow> Inl (Exc TypeError ''missing required positional argument'' [])
      | Some v \<Rightarrow>
          (case fill_defaults ps filled of
             Inl e \<Rightarrow> Inl e
           | Inr rest \<Rightarrow> Inr ((n, v) # rest)))"

definition bind :: "signature \<Rightarrow> pyval list \<Rightarrow> kwargs \<Rightarrow> exc + bound" where
  "bind sg pos kw =
     (case bind_pos (params sg) pos of (filled, rest) \<Rightarrow>
        if rest \<noteq> [] \<and> \<not> varargs sg
        then Inl (Exc TypeError ''too many positional arguments'' [])
        else
          (case bind_kw (map fst (params sg)) (varkw sg) filled [] kw of
             Inl e \<Rightarrow> Inl e
           | Inr (filled', extra) \<Rightarrow>
               (case fill_defaults (params sg) filled' of
                  Inl e \<Rightarrow> Inl e
                | Inr nm \<Rightarrow> Inr \<lparr>named = nm, star_args = rest, star_kw = extra\<rparr>)))"

definition arg :: "bound \<Rightarrow> string \<Rightarrow> pyval" where
  "arg b n = (case map_of (named b) n of Some v \<Rightarrow> v | None \<Rightarrow> PNone)"

definition is_ok :: "'e + 'a \<Rightarrow> bool" where
  "is_ok r = (case r of Inl _ \<Rightarrow> False | Inr _ \<Rightarrow> True)"

section \<open>String helpers\<close>

text \<open>
  \<^verbatim>\<open>str.lower\<close> and \<^verbatim>\<open>str.startswith\<close>. A string is its sequence of bytes; \<open>lower\<close>
  maps the letters A to Z and leaves every other byte as it is. Python lowers letters
  outside ASCII as well, but never to one of the letters of the five prefixes tested by
  the timer, so the prefix tests below agree with Python on every string.
\<close>

definition lower_chr :: "char \<Rightarrow> char" where
  "lower_chr c =
     (case map_of (zip ''ABCDEFGHIJKLMNOPQRSTUVWXYZ'' ''abcdefghijklmnopqrstuvwxyz'') c of
        None \<Rightarrow> c
      | Some d \<Rightarrow> d)"

definition lower :: "string \<Rightarrow> string" where
  "lower s = map lower_chr s"

definition startswith :: "string \<Rightarrow> string \<Rightarrow> bool" where
  "startswith s p = (take (length p) s = p)"

section \<open>The timer class (engine available)\<close>

datatype clock = WallClock | CpuClock | CudaEvent | UserClock | SysClock

text \<open>
  The three attributes set by \<^verbatim>\<open>timer.__init__\<close>: \<^verbatim>\<open>_obj\<close> is the engine component
  built from the label, \<^verbatim>\<open>_unit\<close> and \<^verbatim>\<open>_disp\<close> are the class-level unit values of
  an engine component class; the record keeps which class each one comes from.
\<close>

record timer =
  t_obj :: "clock \<times> pyval"
  t_unit :: clock
  t_disp :: clock

definition mk_timer :: "clock \<Rightarrow> pyval \<Rightarrow> timer" where
  "mk_timer c label = \<lparr>t_obj = (c, label), t_unit = c, t_disp = c\<rparr>"

definition invalid_type :: exc where
  "invalid_type = Exc RuntimeError ''invalid type'' []"

fun timer_init :: "pyval \<Rightarrow> pyval \<Rightarrow> exc + timer" where
  "timer_init (PStr dtype) label =
     (if startswith (lower dtype) ''wall'' then Inr (mk_timer WallClock label)
      else if startswith (lower dtype) ''cpu'' then Inr (mk_timer CpuClock label)
      else if startswith (lower dtype) ''cuda_event'' then Inr (mk_timer CudaEvent label)
      else if startswith (lower dtype) ''user'' then Inr (mk_timer UserClock label)
      else if startswith (lower dtype) ''system'' then Inr (mk_timer SysClock label)
      else Inl invalid_type)"
| "timer_init _ label = Inl (Exc AttributeError ''object has no attribute lower'' [])"

definition timer_sig :: signature where
  "timer_sig = \<lparr>params = [(''dtype'', Some (PStr ''wall'')), (''label'', Some (PStr ''''))],
                 varargs = False, varkw = False\<rparr>"

definition timer_new :: "pyval list \<Rightarrow> kwargs \<Rightarrow> exc + timer" where
  "timer_new pos kw =
     (case bind timer_sig pos kw of
        Inl e \<Rightarrow> Inl e
      | Inr b \<Rightarrow> timer_init (arg b ''dtype'') (arg b ''label''))"

definition timer_kinds :: "string list" where
  "timer_kinds = [''wall'', ''cpu'', ''cuda_event'', ''user'', ''system'']"

section \<open>Run-time state of the module (engine available)\<close>

text \<open>
  \<^verbatim>\<open>timemory.settings\<close>, as far as \<^verbatim>\<open>parse_args\<close> writes it.
\<close>

record tm_settings =
  enabled :: bool
  global_components :: string
  profiler_components :: string
  output_path :: "string option"
  text_output :: bool
  json_output :: bool
  cout_output :: bool
  plot_output :: bool
  flamegraph_output :: bool

text \<open>
  The classes \<^verbatim>\<open>marker\<close>, \<^verbatim>\<open>profile\<close> and \<^verbatim>\<open>trace\<close> derive from engine classes and
  hand their constructor arguments to the base class. The base classes are external, so
  an object is represented by what the module passes to its base constructor: for a
  marker the reference of the component list and the remaining keyword arguments, for a
  profiler and a tracer the positional and keyword arguments.
\<close>

datatype obj =
    Marker nat kwargs
  | Profile "pyval list" kwargs
  | Trace "pyval list" kwargs

text \<open>
  The store of list objects is a list of cells; a reference is an index and a new list is
  appended, so it never reuses a reference. \<open>Metrics\<close> is the module global
  \<^verbatim>\<open>_Metrics\<close> (a reference), \<open>components_default\<close> the list object created once for the
  default value of \<^verbatim>\<open>components=[]\<close>, \<open>builtins\<close> the entries of \<^verbatim>\<open>builtins.__dict__\<close>
  and \<open>initialized\<close> records the call of \<^verbatim>\<open>timemory.init()\<close>.
\<close>

record pstate =
  heap :: "string list list"
  Metrics :: nat
  components_default :: nat
  settings :: tm_settings
  builtins :: "string \<rightharpoonup> obj"
  initialized :: bool

definition deref :: "pstate \<Rightarrow> nat \<Rightarrow> string list option" where
  "deref s r = (if r < length (heap s) then Some (heap s ! r) else None)"

definition new_list :: "string list \<Rightarrow> pstate \<Rightarrow> nat \<times> pstate" where
  "new_list xs s = (length (heap s), s\<lparr>heap := heap s @ [xs]\<rparr>)"

definition dangling :: exc where
  "dangling = Exc (OtherError ''dangling reference'') ''no such list object'' []"

text \<open>
  \<^verbatim>\<open>a + b\<close> with \<open>a\<close> a list: a new list object when \<open>b\<close> is a list, \<^verbatim>\<open>TypeError\<close>
  otherwise. A reference outside the store cannot arise in Python; the model reports it
  as an error of its own.
\<close>

fun list_add :: "pstate \<Rightarrow> nat \<Rightarrow> pyval \<Rightarrow> exc + (nat \<times> pstate)" where
  "list_add s a (PRef b) =
     (case deref s a of
        None \<Rightarrow> Inl dangling
      | Some xs \<Rightarrow>
          (case deref s b of
             None \<Rightarrow> Inl dangling
           | Some ys \<Rightarrow> Inr (new_list (xs @ ys) s)))"
| "list_add s a _ = Inl (Exc TypeError ''can only concatenate list to list'' [])"

subsection \<open>marker, profile and trace\<close>

definition marker_sig :: "pstate \<Rightarrow> signature" where
  "marker_sig s = \<lparr>params = [(''components'', Some (PRef (components_default s)))],
                    varargs = False, varkw = True\<rparr>"

definition marker_init :: "pstate \<Rightarrow> pyval list \<Rightarrow> kwargs \<Rightarrow> exc + (obj \<times> pstate)" where
  "marker_init s pos kw =
     (case bind (marker_sig s) pos kw of
        Inl e \<Rightarrow> Inl e
      | Inr b \<Rightarrow>
          (case list_add s (Metrics s) (arg b ''components'') of
             Inl e \<Rightarrow> Inl e
           | Inr (r, s') \<Rightarrow> Inr (Marker r (star_kw b), s')))"

definition star_sig :: signature where
  "star_sig = \<lparr>params = [], varargs = True, varkw = True\<rparr>"

definition profile_init :: "pyval list \<Rightarrow> kwargs \<Rightarrow> exc + obj" where
  "profile_init pos kw =
     (case bind star_sig pos kw of
        Inl e \<Rightarrow> Inl e
      | Inr b \<Rightarrow> Inr (Profile (star_args b) (star_kw b)))"

definition trace_init :: "pyval list \<Rightarrow> kwargs \<Rightarrow> exc + obj" where
  "trace_init pos kw =
     (case bind star_sig pos kw of
        Inl e \<Rightarrow> Inl e
      | Inr b \<Rightarrow> Inr (Trace (star_args b) (star_kw b)))"

text \<open>The component list of a marker.\<close>

fun components :: "pstate \<Rightarrow> obj \<Rightarrow> string list option" where
  "components s (Marker r kw) = deref s r"
| "components s _ = None"

subsection \<open>parse_args\<close>

text \<open>
  \<^verbatim>\<open>argparse\<close> is external: the model starts from the namespace that
  \<^verbatim>\<open>parser.parse_args()\<close> returns. \<open>a_metrics\<close> is \<open>None\<close> when \<^verbatim>\<open>-c\<close> was not given;
  the attribute is then the default, which is the very list object \<^verbatim>\<open>_Metrics\<close>
  referred to when the option was added. Otherwise it is a new list.
\<close>

record args =
  a_disable_prof :: bool
  a_metrics :: "string list option"
  a_profile :: bool
  a_trace :: bool
  a_perf_output_dir :: "string option"
  a_perf_output_mode :: "string list"

fun join :: "string \<Rightarrow> string list \<Rightarrow> string" where
  "join sep [] = []"
| "join sep [x] = x"
| "join sep (x # y # ys) = x @ sep @ join sep (y # ys)"

definition metrics_arg :: "args \<Rightarrow> pstate \<Rightarrow> nat \<times> pstate" where
  "metrics_arg a s =
     (case a_metrics a of
        None \<Rightarrow> (Metrics s, s)
      | Some xs \<Rightarrow> new_list xs s)"

definition known_settings :: "args \<Rightarrow> string list \<Rightarrow> tm_settings \<Rightarrow> tm_settings" where
  "known_settings a ms st =
     st\<lparr>global_components := join '','' ms,
        profiler_components := join '','' ms,
        output_path := (case a_perf_output_dir a of None \<Rightarrow> output_path st | Some d \<Rightarrow> Some d),
        text_output := (''text'' \<in> set (a_perf_output_mode a)),
        json_output := (''json'' \<in> set (a_perf_output_mode a)),
        cout_output := (''cout'' \<in> set (a_perf_output_mode a)),
        plot_output := (''plot'' \<in> set (a_perf_output_mode a)),
        flamegraph_output := (''flamegraph'' \<in> set (a_perf_output_mode a))\<rparr>"

definition make_prof :: "args \<Rightarrow> pstate \<Rightarrow> exc + (obj \<times> pstate)" where
  "make_prof a s =
     (if a_profile a then
        (case profile_init [] [] of Inl e \<Rightarrow> Inl e | Inr p \<Rightarrow> Inr (p, s))
      else if a_trace a then
        (case trace_init [] [] of Inl e \<Rightarrow> Inl e | Inr p \<Rightarrow> Inr (p, s))
      else marker_init s [] [])"

definition parse_args :: "args \<Rightarrow> pstate \<Rightarrow> exc + (args \<times> pstate)" where
  "parse_args a s =
     (case metrics_arg a (s\<lparr>initialized := True\<rparr>) of (m, s2) \<Rightarrow>
        let s3 = s2\<lparr>settings := (settings s2)\<lparr>enabled := (\<not> a_disable_prof a)\<rparr>\<rparr> in
        if \<not> a_disable_prof a then
          (case deref s3 m of
             None \<Rightarrow> Inl dangling
           | Some ms \<Rightarrow>
               (case make_prof a (s3\<lparr>Metrics := m, settings := known_settings a ms (settings s3)\<rparr>) of
                  Inl e \<Rightarrow> Inl e
                | Inr (p, s5) \<Rightarrow>
                    Inr (a, s5\<lparr>builtins := (builtins s5)(''mlperf_prof.record'' \<mapsto> p)\<rparr>)))
        else
          (case new_list [] s3 of (r, s4) \<Rightarrow> Inr (a, s4\<lparr>Metrics := r\<rparr>)))"

text \<open>
  The state once the module has been loaded with the engine available, for the engine's
  settings \<open>st\<close>: \<^verbatim>\<open>_Metrics = ['wall_clock']\<close>, the default list of \<^verbatim>\<open>components=[]\<close>,
  and \<^verbatim>\<open>_Prof = marker()\<close> stored under \<^verbatim>\<open>mlperf_prof_record\<close>.
\<close>

definition loaded :: "tm_settings \<Rightarrow> pstate" where
  "loaded st =
     \<lparr>heap = [[''wall_clock''], [], [''wall_clock'']],
      Metrics = 0,
      components_default = 1,
      settings = st,
      builtins = [''mlperf_prof_record'' \<mapsto> Marker 2 []],
      initialized = False\<rparr>"

definition wf :: "pstate \<Rightarrow> bool" where
  "wf s = (Metrics s < length (heap s) \<and> components_default s < length (heap s))"

section \<open>Callables, scoped regions and the engine's base classes\<close>

text \<open>
  A callable takes positional and keyword arguments and the world \<open>'w\<close> (everything it
  can read or change) and returns or raises. The world of a scoped region holds the list
  objects and the standard error stream; an entry of the stream is one exception printed
  by \<^verbatim>\<open>traceback.print_exception\<close>, with the traceback entries it shows.
\<close>

type_synonym 'w callable = "pyval list \<Rightarrow> kwargs \<Rightarrow> 'w \<Rightarrow> (exc + pyval) \<times> 'w"

type_synonym 'w exit_method =
  "exc_kind option \<Rightarrow> exc option \<Rightarrow> string list option \<Rightarrow> 'w \<Rightarrow> (exc + pyval) \<times> 'w"

record world =
  w_lists :: "string list list"
  stderr :: "(exc_kind \<times> exc \<times> string list) list"

fun truthy :: "'a world_scheme \<Rightarrow> pyval \<Rightarrow> bool" where
  "truthy w PNone = False"
| "truthy w (PBool b) = b"
| "truthy w (PInt i) = (i \<noteq> 0)"
| "truthy w (PFloat x) = (x \<noteq> 0)"
| "truthy w (PStr t) = (t \<noteq> [])"
| "truthy w (PRef r) = (r < length (w_lists w) \<and> w_lists w ! r \<noteq> [])"

text \<open>
  \<^verbatim>\<open>with mgr: body\<close>: enter, run the body, then call \<^verbatim>\<open>__exit__\<close> with the exception
  triple of the body or with three \<^verbatim>\<open>None\<close>. The exception of the body is suppressed
  exactly when \<^verbatim>\<open>__exit__\<close> returns a true value; an exception raised by \<^verbatim>\<open>__exit__\<close>
  itself replaces it.
\<close>

definition with_stmt ::
  "('a world_scheme \<Rightarrow> (exc + pyval) \<times> 'a world_scheme) \<Rightarrow> 'a world_scheme exit_method \<Rightarrow>
   ('a world_scheme \<Rightarrow> (exc + unit) \<times> 'a world_scheme) \<Rightarrow>
   'a world_scheme \<Rightarrow> (exc + unit) \<times> 'a world_scheme" where
  "with_stmt enter exit body w =
     (case enter w of
        (Inl e, w1) \<Rightarrow> (Inl e, w1)
      | (Inr h, w1) \<Rightarrow>
          (case body w1 of
             (Inr u, w2) \<Rightarrow>
               (case exit None None None w2 of
                  (Inl e, w3) \<Rightarrow> (Inl e, w3)
                | (Inr r, w3) \<Rightarrow> (Inr (), w3))
           | (Inl e, w2) \<Rightarrow>
               (case exit (Some (exc_kind e)) (Some e) (Some (exc_tb e)) w2 of
                  (Inl e', w3) \<Rightarrow> (Inl e', w3)
                | (Inr r, w3) \<Rightarrow> if truthy w3 r then (Inr (), w3) else (Inl e, w3))))"

text \<open>
  An engine base class (\<^verbatim>\<open>timemory.util.marker\<close>, \<^verbatim>\<open>timemory.profiler.profile\<close> or
  \<^verbatim>\<open>timemory.line_profiler.LineProfiler\<close>) is external and enters as a parameter: its
  \<^verbatim>\<open>__call__\<close>, \<^verbatim>\<open>__enter__\<close> and \<^verbatim>\<open>__exit__\<close>.
\<close>

record 'w base =
  b_call :: "'w callable \<Rightarrow> 'w callable"
  b_enter :: "'w callable"
  b_exit :: "'w exit_method"

text \<open>
  The methods of \<^verbatim>\<open>marker\<close>, \<^verbatim>\<open>profile\<close> and \<^verbatim>\<open>trace\<close> call the method of the same
  name of the base class with the same arguments. \<^verbatim>\<open>profile\<close> does not define
  \<^verbatim>\<open>__exit__\<close> (it is commented out), so it inherits the base method.
\<close>

definition marker_call :: "'w base \<Rightarrow> 'w callable \<Rightarrow> 'w callable" where
  "marker_call b func = b_call b func"

definition marker_enter :: "'w base \<Rightarrow> 'w callable" where
  "marker_enter b pos kw = b_enter b pos kw"

definition marker_exit :: "'w base \<Rightarrow> 'w exit_method" where
  "marker_exit b exc_type exc_value exc_traceback = b_exit b exc_type exc_value exc_traceback"

definition profile_call :: "'w base \<Rightarrow> 'w callable \<Rightarrow> 'w callable" where
  "profile_call b func = b_call b func"

definition profile_enter :: "'w base \<Rightarrow> 'w callable" where
  "profile_enter b pos kw = b_enter b pos kw"

definition profile_exit :: "'w base \<Rightarrow> 'w exit_method" where
  "profile_exit b = b_exit b"

definition trace_call :: "'w base \<Rightarrow> 'w callable \<Rightarrow> 'w callable" where
  "trace_call b func = b_call b func"

definition trace_enter :: "'w base \<Rightarrow> 'w callable" where
  "trace_enter b pos kw = b_enter b pos kw"

definition trace_exit :: "'w base \<Rightarrow> 'w exit_method" where
  "trace_exit b exc_type exc_value exc_traceback = b_exit b exc_type exc_value exc_traceback"

section \<open>The classes of the except branch\<close>

datatype fb_marker = FbMarker

definition fb_marker_sig :: signature where
  "fb_marker_sig = \<lparr>params = [], varargs = False, varkw = False\<rparr>"

definition fb_marker_init :: "pyval list \<Rightarrow> kwargs \<Rightarrow> exc + fb_marker" where
  "fb_marker_init pos kw =
     (case bind fb_marker_sig pos kw of
        Inl e \<Rightarrow> Inl e
      | Inr b \<Rightarrow> Inr FbMarker)"

definition function_wrapper :: "'w callable \<Rightarrow> 'w callable" where
  "function_wrapper func pos kw w =
     (case func pos kw w of
        (Inl e, w') \<Rightarrow> (Inl e, w')
      | (Inr ret, w') \<Rightarrow> (Inr ret, w'))"

definition fb_marker_call :: "fb_marker \<Rightarrow> 'w callable \<Rightarrow> 'w callable" where
  "fb_marker_call self func = function_wrapper func"

definition fb_marker_enter :: "fb_marker \<Rightarrow> 'w callable" where
  "fb_marker_enter self pos kw w = (Inr PNone, w)"

definition fb_marker_exit :: "fb_marker \<Rightarrow> 'a world_scheme exit_method" where
  "fb_marker_exit self exc_type exc_value exc_traceback w =
     (case (exc_type, exc_value, exc_traceback) of
        (Some ty, Some v, Some tb) \<Rightarrow> (Inr PNone, w\<lparr>stderr := stderr w @ [(ty, v, take 5 tb)]\<rparr>)
      | _ \<Rightarrow> (Inr PNone, w))"

record fb_timer =
  ft_obj :: pyval

definition fb_timer_sig :: signature where
  "fb_timer_sig = \<lparr>params = [(''dtype'', None)], varargs = False, varkw = False\<rparr>"

definition fb_timer_init :: "pyval list \<Rightarrow> kwargs \<Rightarrow> exc + fb_timer" where
  "fb_timer_init pos kw =
     (case bind fb_timer_sig pos kw of
        Inl e \<Rightarrow> Inl e
      | Inr b \<Rightarrow> Inr \<lparr>ft_obj = PNone\<rparr>)"

definition fb_timer_get :: "fb_timer \<Rightarrow> pyval" where
  "fb_timer_get self = PFloat 0"

definition fb_timer_start :: "fb_timer \<Rightarrow> pyval" where
  "fb_timer_start self = PNone"

definition fb_timer_stop :: "fb_timer \<Rightarrow> pyval" where
  "fb_timer_stop self = PNone"

definition fb_timer_laps :: "fb_timer \<Rightarrow> pyval" where
  "fb_timer_laps self = PInt 0"

definition fb_timer_units :: "fb_timer \<Rightarrow> pyval" where
  "fb_timer_units self = PInt 0"

definition fb_timer_display_units :: "fb_timer \<Rightarrow> pyval" where
  "fb_timer_display_units self = PStr []"

section \<open>Loading the module\<close>

text \<open>
  What the environment decides at import time: whether \<^verbatim>\<open>import timemory\<close> raises, which
  attributes the package object has once imported, and whether each of the further
  imports of the try branch raises.
\<close>

record engine_env =
  timemory_import :: "exc option"
  pkg_attrs :: "string list"
  component_import :: "exc option"
  profiler_import :: "exc option"
  line_profiler_import :: "exc option"
  json_import :: "exc option"

datatype branch = TryBranch | ExceptBranch

text \<open>
  The module namespace while it loads: for each public name the branch whose definition
  it is bound to, whether the name \<^verbatim>\<open>timemory\<close> is bound and with which attributes, what
  \<^verbatim>\<open>print\<close> wrote, and the class of the object stored under \<^verbatim>\<open>mlperf_prof_record\<close>.
\<close>

record mstate =
  names :: "string \<rightharpoonup> branch"
  tm_bound :: bool
  tm_attrs :: "string list"
  printed :: "string list"
  prof_record :: "branch option"

type_synonym step = "mstate \<Rightarrow> exc option \<times> mstate"

fun seq :: "step list \<Rightarrow> step" where
  "seq [] s = (None, s)"
| "seq (f # fs) s = (case f s of (Some e, s') \<Rightarrow> (Some e, s') | (None, s') \<Rightarrow> seq fs s')"

definition import_pkg :: "engine_env \<Rightarrow> step" where
  "import_pkg env s =
     (case timemory_import env of
        Some e \<Rightarrow> (Some e, s)
      | None \<Rightarrow> (None, s\<lparr>tm_bound := True, tm_attrs := pkg_attrs env\<rparr>))"

definition import_sub :: "exc option \<Rightarrow> string \<Rightarrow> step" where
  "import_sub r sub s =
     (case r of
        Some e \<Rightarrow> (Some e, s)
      | None \<Rightarrow> (None, s\<lparr>tm_attrs := sub # tm_attrs s\<rparr>))"

definition import_other :: "exc option \<Rightarrow> step" where
  "import_other r s = (r, s)"

definition def_name :: "string \<Rightarrow> branch \<Rightarrow> step" where
  "def_name nm br s = (None, s\<lparr>names := (names s)(nm \<mapsto> br)\<rparr>)"

text \<open>
  \<^verbatim>\<open>class nm(timemory.sub.cls)\<close>: the base expression is evaluated first, so the name
  \<^verbatim>\<open>timemory\<close> must be bound and have the attribute \<open>sub\<close>.
\<close>

definition class_from :: "string \<Rightarrow> string \<Rightarrow> branch \<Rightarrow> step" where
  "class_from sub nm br s =
     (if \<not> tm_bound s then (Some (Exc NameError ''name timemory is not defined'' []), s)
      else if sub \<notin> set (tm_attrs s)
      then (Some (Exc AttributeError ''module timemory has no such attribute'' []), s)
      else def_name nm br s)"

definition print_exc :: "exc \<Rightarrow> step" where
  "print_exc e s = (None, s\<lparr>printed := printed s @ [exc_msg e]\<rparr>)"

definition try_body :: "engine_env \<Rightarrow> step" where
  "try_body env =
     seq [import_pkg env,
          import_sub (component_import env) ''component'',
          import_sub (profiler_import env) ''profiler'',
          import_sub (line_profiler_import env) ''line_profiler'',
          import_other (json_import env),
          def_name ''get_results'' TryBranch,
          def_name ''finalize'' TryBranch,
          class_from ''util'' ''marker'' TryBranch,
          class_from ''profiler'' ''profile'' TryBranch,
          class_from ''line_profiler'' ''trace'' TryBranch,
          def_name ''timer'' TryBranch,
          def_name ''parse_args'' TryBranch]"

definition handler :: "exc \<Rightarrow> step" where
  "handler e =
     seq [print_exc e,
          def_name ''get_results'' ExceptBranch,
          def_name ''finalize'' ExceptBranch,
          def_name ''parse_args'' ExceptBranch,
          def_name ''marker'' ExceptBranch,
          class_from ''profiler'' ''profile'' ExceptBranch,
          class_from ''line_profiler'' ''trace'' ExceptBranch,
          def_name ''timer'' ExceptBranch]"

definition module_tail :: "mstate \<Rightarrow> mstate" where
  "module_tail s = s\<lparr>prof_record := names s ''marker''\<rparr>"

definition mstate0 :: mstate where
  "mstate0 = \<lparr>names = Map.empty, tm_bound = False, tm_attrs = [], printed = [],
              prof_record = None\<rparr>"

definition load_module :: "engine_env \<Rightarrow> exc + mstate" where
  "load_module env =
     (case try_body env mstate0 of
        (None, s) \<Rightarrow> Inr (module_tail s)
      | (Some e, s) \<Rightarrow>
          (case handler e s of
             (None, s') \<Rightarrow> Inr (module_tail s')
           | (Some e', s') \<Rightarrow> Inl e'))"

definition engine_missing :: engine_env where
  "engine_missing =
     \<lparr>timemory_import = Some (Exc ImportError ''No module named timemory'' []),
      pkg_attrs = [],
      component_import = Some (Exc ImportError ''No module named timemory'' []),
      profiler_import = Some (Exc ImportError ''No module named timemory'' []),
      line_profiler_import = Some (Exc ImportError ''No module named timemory'' []),
      json_import = None\<rparr>"

section \<open>Example inputs\<close>

text \<open>
  Engine settings as they might stand before \<^verbatim>\<open>parse_args\<close> runs, and the namespace of
  the command line \<^verbatim>\<open>-c wall_clock cpu_clock\<close> (every other option at its default).
\<close>

definition example_settings :: tm_settings where
  "example_settings =
     \<lparr>enabled = True, global_components = [], profiler_components = [],
      output_path = None, text_output = False, json_output = False, cout_output = False,
      plot_output = False, flamegraph_output = False\<rparr>"

text \<open>
  The loaded module after the list display \<open>C\<close> has been evaluated; the new list has the
  reference 3.
\<close>

definition state_with_list :: "string list \<Rightarrow> pstate" where
  "state_with_list C = snd (new_list C (loaded example_settings))"

definition example_args :: args where
  "example_args =
     \<lparr>a_disable_prof = False, a_metrics = Some [''wall_clock'', ''cpu_clock''],
      a_profile = False, a_trace = False, a_perf_output_dir = None,
      a_perf_output_mode = [''cout'', ''text'']\<rparr>"

section \<open>Timer construction\<close>

lemma startswith_Cons: "startswith s (c # p) = (case s of [] \<Rightarrow> False | d # t \<Rightarrow> d = c \<and> startswith t p)"
  by (cases s) (auto simp: startswith_def)

lemma startswith_Nil: "startswith s []"
  by (simp add: startswith_def)

lemma prefixes_exclusive:
  "\<not> (startswith t ''wall'' \<and> startswith t ''cpu'')"
  "\<not> (startswith t ''wall'' \<and> startswith t ''cuda_event'')"
  "\<not> (startswith t ''wall'' \<and> startswith t ''user'')"
  "\<not> (startswith t ''wall'' \<and> startswith t ''system'')"
  "\<not> (startswith t ''cpu'' \<and> startswith t ''cuda_event'')"
  "\<not> (startswith t ''cpu'' \<and> startswith t ''user'')"
  "\<not> (startswith t ''cpu'' \<and> startswith t ''system'')"
  "\<not> (startswith t ''cuda_event'' \<and> startswith t ''user'')"
  "\<not> (startswith t ''cuda_event'' \<and> startswith t ''system'')"
  "\<not> (startswith t ''user'' \<and> startswith t ''system'')"
  by (auto simp: startswith_Cons split: list.splits)

lemma lower_WALL_TIME: "lower ''WALL_TIME'' = ''wall_time''"
  by (simp add: lower_def lower_chr_def)

lemma lower_cuda: "lower ''cuda'' = ''cuda''"
  by (simp add: lower_def lower_chr_def)

lemma lower_wall_clock: "lower ''wall_clock'' = ''wall_clock''"
  by (simp add: lower_def lower_chr_def)

text \<open>
  Claim C3, as amended. Constructing a timer from a kind string succeeds exactly when the
  lower-cased string starts with one of \<^verbatim>\<open>wall\<close>, \<^verbatim>\<open>cpu\<close>, \<^verbatim>\<open>cuda_event\<close>, \<^verbatim>\<open>user\<close>,
  \<^verbatim>\<open>system\<close>; every other kind string fails with \<^verbatim>\<open>RuntimeError('invalid type')\<close> and no
  timer is produced.
\<close>

theorem timer_succeeds_iff_prefix:
  "(is_ok (timer_init (PStr k) l) \<longleftrightarrow> (\<exists>p \<in> set timer_kinds. startswith (lower k) p)) \<and>
   (\<not> is_ok (timer_init (PStr k) l) \<longrightarrow> timer_init (PStr k) l = Inl invalid_type)"
  by (simp add: is_ok_def timer_kinds_def)

text \<open>
  Claim C10. The kind is dispatched on the case-insensitive prefix: a string whose
  lower-cased form starts with \<^verbatim>\<open>wall\<close> builds the timer of the wall clock (its
  component is a \<^verbatim>\<open>WallClock\<close> with the given label, its unit and display unit are those
  of \<^verbatim>\<open>WallClock\<close>), and likewise \<^verbatim>\<open>cpu\<close> builds a \<^verbatim>\<open>CpuClock\<close> timer, \<^verbatim>\<open>cuda_event\<close> a
  \<^verbatim>\<open>CudaEvent\<close> timer, \<^verbatim>\<open>user\<close> a \<^verbatim>\<open>UserClock\<close> timer and \<^verbatim>\<open>system\<close> a \<^verbatim>\<open>SysClock\<close>
  timer; a string that matches none of the five raises \<^verbatim>\<open>RuntimeError('invalid type')\<close>.
  \<^verbatim>\<open>WALL_TIME\<close> builds a wall-clock timer and the bare \<^verbatim>\<open>cuda\<close> fails. No prefix is a
  prefix of another, so the order of the tests cannot be observed.
\<close>

theorem timer_dispatch:
  "(startswith (lower k) ''wall'' \<longrightarrow>
      timer_init (PStr k) l =
        Inr \<lparr>t_obj = (WallClock, l), t_unit = WallClock, t_disp = WallClock\<rparr>) \<and>
   (startswith (lower k) ''cpu'' \<longrightarrow>
      timer_init (PStr k) l =
        Inr \<lparr>t_obj = (CpuClock, l), t_unit = CpuClock, t_disp = CpuClock\<rparr>) \<and>
   (startswith (lower k) ''cuda_event'' \<longrightarrow>
      timer_init (PStr k) l =
        Inr \<lparr>t_obj = (CudaEvent, l), t_unit = CudaEvent, t_disp = CudaEvent\<rparr>) \<and>
   (startswith (lower k) ''user'' \<longrightarrow>
      timer_init (PStr k) l =
        Inr \<lparr>t_obj = (UserClock, l), t_unit = UserClock, t_disp = UserClock\<rparr>) \<and>
   (startswith (lower k) ''system'' \<longrightarrow>
      timer_init (PStr k) l =
        Inr \<lparr>t_obj = (SysClock, l), t_unit = SysClock, t_disp = SysClock\<rparr>) \<and>
   (\<not> startswith (lower k) ''wall'' \<and> \<not> startswith (lower k) ''cpu'' \<and>
    \<not> startswith (lower k) ''cuda_event'' \<and> \<not> startswith (lower k) ''user'' \<and>
    \<not> startswith (lower k) ''system'' \<longrightarrow>
      timer_init (PStr k) l = Inl (Exc RuntimeError ''invalid type'' [])) \<and>
   timer_init (PStr ''WALL_TIME'') l =
     Inr \<lparr>t_obj = (WallClock, l), t_unit = WallClock, t_disp = WallClock\<rparr> \<and>
   timer_init (PStr ''cuda'') l = Inl (Exc RuntimeError ''invalid type'' [])"
proof -
  have excl: "\<not> (startswith (lower k) ''wall'' \<and> startswith (lower k) ''cpu'')"
    "\<not> (startswith (lower k) ''wall'' \<and> startswith (lower k) ''cuda_event'')"
    "\<not> (startswith (lower k) ''wall'' \<and> startswith (lower k) ''user'')"
    "\<not> (startswith (lower k) ''wall'' \<and> startswith (lower k) ''system'')"
    "\<not> (startswith (lower k) ''cpu'' \<and> startswith (lower k) ''cuda_event'')"
    "\<not> (startswith (lower k) ''cpu'' \<and> startswith (lower k) ''user'')"
    "\<not> (startswith (lower k) ''cpu'' \<and> startswith (lower k) ''system'')"
    "\<not> (startswith (lower k) ''cuda_event'' \<and> startswith (lower k) ''user'')"
    "\<not> (startswith (lower k) ''cuda_event'' \<and> startswith (lower k) ''system'')"
    "\<not> (startswith (lower k) ''user'' \<and> startswith (lower k) ''system'')"
    by (rule prefixes_exclusive)+
  have wall: "startswith (lower k) ''wall'' \<longrightarrow> timer_init (PStr k) l =
      Inr \<lparr>t_obj = (WallClock, l), t_unit = WallClock, t_disp = WallClock\<rparr>"
    by (simp add: mk_timer_def)
  have cpu: "startswith (lower k) ''cpu'' \<longrightarrow> timer_init (PStr k) l =
      Inr \<lparr>t_obj = (CpuClock, l), t_unit = CpuClock, t_disp = CpuClock\<rparr>"
    using excl by (auto simp: mk_timer_def)
  have cuda: "startswith (lower k) ''cuda_event'' \<longrightarrow> timer_init (PStr k) l =
      Inr \<lparr>t_obj = (CudaEvent, l), t_unit = CudaEvent, t_disp = CudaEvent\<rparr>"
    using excl by (auto simp: mk_timer_def)
  have user: "startswith (lower k) ''user'' \<longrightarrow> timer_init (PStr k) l =
      Inr \<lparr>t_obj = (UserClock, l), t_unit = UserClock, t_disp = UserClock\<rparr>"
    using excl by (auto simp: mk_timer_def)
  have sys: "startswith (lower k) ''system'' \<longrightarrow> timer_init (PStr k) l =
      Inr \<lparr>t_obj = (SysClock, l), t_unit = SysClock, t_disp = SysClock\<rparr>"
    using excl by (auto simp: mk_timer_def)
  have none: "\<not> startswith (lower k) ''wall'' \<and> \<not> startswith (lower k) ''cpu'' \<and>
      \<not> startswith (lower k) ''cuda_event'' \<and> \<not> startswith (lower k) ''user'' \<and>
      \<not> startswith (lower k) ''system'' \<longrightarrow>
      timer_init (PStr k) l = Inl (Exc RuntimeError ''invalid type'' [])"
    by (simp add: invalid_type_def)
  have ex1: "timer_init (PStr ''WALL_TIME'') l =
      Inr \<lparr>t_obj = (WallClock, l), t_unit = WallClock, t_disp = WallClock\<rparr>"
    by (simp add: lower_WALL_TIME startswith_def mk_timer_def)
  have ex2: "timer_init (PStr ''cuda'') l = Inl (Exc RuntimeError ''invalid type'' [])"
    by (simp add: lower_cuda startswith_def invalid_type_def)
  from wall cpu cuda user sys none ex1 ex2 show ?thesis by blast
qed

text \<open>
  Claim C3 as stated fails: \<^verbatim>\<open>wall_clock\<close> is none of the five kinds, yet the timer is
  constructed.
\<close>

theorem timer_exact_kind_counterexample:
  "is_ok (timer_init (PStr ''wall_clock'') (PStr [])) \<and> ''wall_clock'' \<notin> set timer_kinds"
  by (simp add: lower_wall_clock startswith_def is_ok_def timer_kinds_def)

text \<open>The amended C3 at \<^verbatim>\<open>WALL_TIME\<close> and at \<^verbatim>\<open>cuda\<close>.\<close>

theorem timer_succeeds_iff_prefix_witness:
  "is_ok (timer_init (PStr ''WALL_TIME'') (PStr [])) \<and>
   (\<exists>p \<in> set timer_kinds. startswith (lower ''WALL_TIME'') p) \<and>
   \<not> is_ok (timer_init (PStr ''cuda'') (PStr [])) \<and>
   timer_init (PStr ''cuda'') (PStr []) = Inl invalid_type"
  using timer_succeeds_iff_prefix [of "''WALL_TIME''" "PStr []"]
        timer_succeeds_iff_prefix [of "''cuda''" "PStr []"]
  by (simp add: lower_WALL_TIME lower_cuda startswith_def timer_kinds_def)

text \<open>
  The dispatch of C10 at \<^verbatim>\<open>System_Clock\<close>, \<^verbatim>\<open>CPU\<close>, \<^verbatim>\<open>cuda_event_timer\<close>, \<^verbatim>\<open>User\<close> and
  \<^verbatim>\<open>wallclock\<close>, and at \<^verbatim>\<open>gpu\<close>, which matches no prefix.
\<close>

theorem timer_dispatch_witness:
  "startswith (lower ''System_Clock'') ''system'' \<and>
   timer_init (PStr ''System_Clock'') PNone =
     Inr \<lparr>t_obj = (SysClock, PNone), t_unit = SysClock, t_disp = SysClock\<rparr> \<and>
   startswith (lower ''CPU'') ''cpu'' \<and>
   timer_init (PStr ''CPU'') (PStr ''a'') =
     Inr \<lparr>t_obj = (CpuClock, PStr ''a''), t_unit = CpuClock, t_disp = CpuClock\<rparr> \<and>
   startswith (lower ''cuda_event_timer'') ''cuda_event'' \<and>
   timer_init (PStr ''cuda_event_timer'') (PStr ''b'') =
     Inr \<lparr>t_obj = (CudaEvent, PStr ''b''), t_unit = CudaEvent, t_disp = CudaEvent\<rparr> \<and>
   startswith (lower ''User'') ''user'' \<and>
   timer_init (PStr ''User'') (PStr ''c'') =
     Inr \<lparr>t_obj = (UserClock, PStr ''c''), t_unit = UserClock, t_disp = UserClock\<rparr> \<and>
   startswith (lower ''wallclock'') ''wall'' \<and>
   timer_init (PStr ''wallclock'') (PStr ''d'') =
     Inr \<lparr>t_obj = (WallClock, PStr ''d''), t_unit = WallClock, t_disp = WallClock\<rparr> \<and>
   \<not> startswith (lower ''gpu'') ''wall'' \<and> \<not> startswith (lower ''gpu'') ''cpu'' \<and>
   \<not> startswith (lower ''gpu'') ''cuda_event'' \<and> \<not> startswith (lower ''gpu'') ''user'' \<and>
   \<not> startswith (lower ''gpu'') ''system'' \<and>
   timer_init (PStr ''gpu'') PNone = Inl (Exc RuntimeError ''invalid type'' [])"
proof -
  have a: "lower ''System_Clock'' = ''system_clock''" "lower ''CPU'' = ''cpu''"
    "lower ''cuda_event_timer'' = ''cuda_event_timer''" "lower ''User'' = ''user''"
    "lower ''wallclock'' = ''wallclock''" "lower ''gpu'' = ''gpu''"
    by (simp_all add: lower_def lower_chr_def)
  have h1: "startswith (lower ''System_Clock'') ''system''" by (simp add: a startswith_def)
  have h2: "startswith (lower ''CPU'') ''cpu''" by (simp add: a startswith_def)
  have h3: "startswith (lower ''cuda_event_timer'') ''cuda_event''" by (simp add: a startswith_def)
  have h4: "startswith (lower ''User'') ''user''" by (simp add: a startswith_def)
  have h5: "startswith (lower ''wallclock'') ''wall''" by (simp add: a startswith_def)
  have h6: "\<not> startswith (lower ''gpu'') ''wall'' \<and> \<not> startswith (lower ''gpu'') ''cpu'' \<and>
      \<not> startswith (lower ''gpu'') ''cuda_event'' \<and> \<not> startswith (lower ''gpu'') ''user'' \<and>
      \<not> startswith (lower ''gpu'') ''system''"
    by (simp add: a startswith_def)
  from timer_dispatch [of "''System_Clock''" PNone] h1
  have c1: "timer_init (PStr ''System_Clock'') PNone =
      Inr \<lparr>t_obj = (SysClock, PNone), t_unit = SysClock, t_disp = SysClock\<rparr>" by blast
  from timer_dispatch [of "''CPU''" "PStr ''a''"] h2
  have c2: "timer_init (PStr ''CPU'') (PStr ''a'') =
      Inr \<lparr>t_obj = (CpuClock, PStr ''a''), t_unit = CpuClock, t_disp = CpuClock\<rparr>" by blast
  from timer_dispatch [of "''cuda_event_timer''" "PStr ''b''"] h3
  have c3: "timer_init (PStr ''cuda_event_timer'') (PStr ''b'') =
      Inr \<lparr>t_obj = (CudaEvent, PStr ''b''), t_unit = CudaEvent, t_disp = CudaEvent\<rparr>" by blast
  from timer_dispatch [of "''User''" "PStr ''c''"] h4
  have c4: "timer_init (PStr ''User'') (PStr ''c'') =
      Inr \<lparr>t_obj = (UserClock, PStr ''c''), t_unit = UserClock, t_disp = UserClock\<rparr>" by blast
  from timer_dispatch [of "''wallclock''" "PStr ''d''"] h5
  have c5: "timer_init (PStr ''wallclock'') (PStr ''d'') =
      Inr \<lparr>t_obj = (WallClock, PStr ''d''), t_unit = WallClock, t_disp = WallClock\<rparr>" by blast
  from timer_dispatch [of "''gpu''" PNone] h6
  have c6: "timer_init (PStr ''gpu'') PNone = Inl (Exc RuntimeError ''invalid type'' [])" by blast
  from h1 h2 h3 h4 h5 h6 c1 c2 c3 c4 c5 c6 show ?thesis by blast
qed

section \<open>Argument binding\<close>

lemma bind_kw_extra:
  "\<forall>k \<in> set (map fst kws). k \<notin> set nms \<Longrightarrow>
   bind_kw nms True filled extra kws = Inr (filled, extra @ kws)"
  by (induction kws arbitrary: extra) auto

lemma bind_star: "bind star_sig pos kw = Inr \<lparr>named = [], star_args = pos, star_kw = kw\<rparr>"
  by (simp add: bind_def star_sig_def bind_kw_extra)

lemma bind_marker_pos:
  "''components'' \<notin> set (map fst kw) \<Longrightarrow>
   bind (marker_sig s) [v] kw = Inr \<lparr>named = [(''components'', v)], star_args = [], star_kw = kw\<rparr>"
proof -
  assume "''components'' \<notin> set (map fst kw)"
  then have "bind_kw [''components''] True [(''components'', v)] [] kw =
      Inr ([(''components'', v)], [] @ kw)"
    by (intro bind_kw_extra) force
  then show ?thesis by (simp add: bind_def marker_sig_def)
qed

lemma bind_marker_default:
  "bind (marker_sig s) [] [] =
     Inr \<lparr>named = [(''components'', PRef (components_default s))], star_args = [], star_kw = []\<rparr>"
  by (simp add: bind_def marker_sig_def)

section \<open>The profiler and tracer constructors\<close>

text \<open>
  The constructors of \<^verbatim>\<open>profile\<close> and \<^verbatim>\<open>trace\<close> accept every call and hand its
  arguments on as they are.
\<close>

lemma profile_init_forwards: "profile_init pos kw = Inr (Profile pos kw)"
  by (simp add: profile_init_def bind_star)

lemma trace_init_forwards: "trace_init pos kw = Inr (Trace pos kw)"
  by (simp add: trace_init_def bind_star)

section \<open>The classes of the except branch are inert\<close>

lemma function_wrapper_id: "function_wrapper func pos kw w = func pos kw w"
proof (cases "func pos kw w")
  case (Pair r w')
  then show ?thesis by (cases r) (simp_all add: function_wrapper_def)
qed

text \<open>
  Claim C4. With the classes of the except branch, \<^verbatim>\<open>timer('wall')\<close> is constructed, its
  \<^verbatim>\<open>get()\<close> returns the float zero and its \<^verbatim>\<open>laps()\<close> returns 0 whatever the timer; and
  a function decorated with \<^verbatim>\<open>marker()\<close> behaves as the function itself on all
  arguments and in every world: same result or exception, same effects, nothing measured.
\<close>

theorem fallback_timer_and_decorator_inert:
  "fb_timer_init [PStr ''wall''] [] = Inr \<lparr>ft_obj = PNone\<rparr> \<and>
   fb_timer_get t = PFloat 0 \<and>
   fb_timer_laps t = PInt 0 \<and>
   fb_marker_init [] [] = Inr FbMarker \<and>
   fb_marker_call FbMarker f pos kw w = f pos kw w"
  by (simp add: fb_timer_init_def fb_timer_sig_def bind_def fb_timer_get_def fb_timer_laps_def
      fb_marker_init_def fb_marker_sig_def fb_marker_call_def function_wrapper_id)

text \<open>
  Claim C5 at the call of \<^verbatim>\<open>examples/basic.py\<close>,
  \<^verbatim>\<open>marker(['wall_clock', 'cpu_clock'], mode='full')\<close>: the marker of the except branch
  takes no argument and raises \<^verbatim>\<open>TypeError\<close> (also for a component list alone and for a
  mode alone), while the marker of the try branch accepts the same call.
\<close>

theorem fallback_marker_rejects_arguments:
  "fb_marker_init [PRef 3] [(''mode'', PStr ''full'')] = Inl (Exc TypeError ''too many positional arguments'' []) \<and>
   fb_marker_init [PRef 3] [] = Inl (Exc TypeError ''too many positional arguments'' []) \<and>
   fb_marker_init [] [(''mode'', PStr ''full'')] = Inl (Exc TypeError ''got an unexpected keyword argument'' []) \<and>
   is_ok (marker_init (snd (new_list [''wall_clock'', ''cpu_clock''] (loaded st))) [PRef 3] [(''mode'', PStr ''full'')])"
  by (simp add: fb_marker_init_def fb_marker_sig_def bind_def marker_init_def marker_sig_def
      new_list_def loaded_def deref_def arg_def is_ok_def)

section \<open>Loading without the engine\<close>

text \<open>
  Claim C1 where the engine is not installed: \<^verbatim>\<open>import timemory\<close> raises, the handler
  prints the exception and defines the first fallbacks, then
  \<^verbatim>\<open>class profile(timemory.profiler.profile)\<close> looks up the unbound name \<^verbatim>\<open>timemory\<close>
  and the load of the module ends in \<^verbatim>\<open>NameError\<close>.
\<close>

theorem load_fails_without_engine:
  "load_module engine_missing = Inl (Exc NameError ''name timemory is not defined'' [])"
  by (simp add: load_module_def engine_missing_def try_body_def handler_def import_pkg_def
      print_exc_def def_name_def class_from_def mstate0_def)

section \<open>The components of a marker\<close>

lemma deref_new_list_old: "deref s r = Some xs \<Longrightarrow> deref (snd (new_list ys s)) r = Some xs"
  by (auto simp: deref_def new_list_def nth_append split: if_splits)

lemma deref_new_list_new: "deref (snd (new_list ys s)) (fst (new_list ys s)) = Some ys"
  by (simp add: deref_def new_list_def)

lemma marker_init_prepends:
  assumes "deref s (Metrics s) = Some ms" and "deref s r = Some C"
    and "''components'' \<notin> set (map fst kw)"
  shows "\<exists>m s'. marker_init s [PRef r] kw = Inr (m, s') \<and> components s' m = Some (ms @ C)"
proof -
  from assms(3) have b: "bind (marker_sig s) [PRef r] kw =
      Inr \<lparr>named = [(''components'', PRef r)], star_args = [], star_kw = kw\<rparr>"
    by (rule bind_marker_pos)
  have l: "list_add s (Metrics s) (PRef r) = Inr (new_list (ms @ C) s)"
    using assms(1,2) by simp
  have "marker_init s [PRef r] kw =
      Inr (Marker (fst (new_list (ms @ C) s)) kw, snd (new_list (ms @ C) s))"
    using assms(1,2) by (simp add: marker_init_def b arg_def split: prod.splits)
  moreover have "components (snd (new_list (ms @ C) s)) (Marker (fst (new_list (ms @ C) s)) kw)
      = Some (ms @ C)"
    by (simp add: deref_new_list_new)
  ultimately show ?thesis by blast
qed

text \<open>
  Claim C2, as amended. A marker constructed with the component list \<open>C\<close> has as
  component list the current global list \<^verbatim>\<open>_Metrics\<close> followed by \<open>C\<close>, in order
  (hence \<open>C\<close> itself only when the global list is empty).
\<close>

theorem marker_components_prepend_metrics:
  assumes "deref s (Metrics s) = Some ms" and "deref s r = Some C"
    and "''components'' \<notin> set (map fst kw)"
  shows "\<exists>m s'. marker_init s [PRef r] kw = Inr (m, s') \<and> components s' m = Some (ms @ C)"
  using assms by (rule marker_init_prepends)

text \<open>
  Claim C2 as stated fails: after loading, \<^verbatim>\<open>marker(['cpu_clock'])\<close> has the components
  \<^verbatim>\<open>['wall_clock', 'cpu_clock']\<close>, not \<^verbatim>\<open>['cpu_clock']\<close>.
\<close>

theorem marker_components_counterexample:
  "marker_init (state_with_list [''cpu_clock'']) [PRef 3] [] =
     Inr (Marker 4 [], snd (new_list [''wall_clock'', ''cpu_clock''] (state_with_list [''cpu_clock'']))) \<and>
   components (snd (new_list [''wall_clock'', ''cpu_clock''] (state_with_list [''cpu_clock''])))
     (Marker 4 []) = Some [''wall_clock'', ''cpu_clock''] \<and>
   [''wall_clock'', ''cpu_clock''] \<noteq> [''cpu_clock'']"
  by (simp add: marker_init_def bind_def marker_sig_def arg_def deref_def new_list_def
      state_with_list_def loaded_def)

text \<open>The amended C2 at \<^verbatim>\<open>marker(['cpu_clock'])\<close> in the loaded module.\<close>

theorem marker_components_prepend_metrics_witness:
  "deref (state_with_list [''cpu_clock'']) (Metrics (state_with_list [''cpu_clock''])) = Some [''wall_clock''] \<and>
   deref (state_with_list [''cpu_clock'']) 3 = Some [''cpu_clock''] \<and>
   ''components'' \<notin> set (map fst ([] :: kwargs)) \<and>
   (\<exists>m s'. marker_init (state_with_list [''cpu_clock'']) [PRef 3] [] = Inr (m, s') \<and>
      components s' m = Some ([''wall_clock''] @ [''cpu_clock'']))"
proof -
  have h1: "deref (state_with_list [''cpu_clock'']) (Metrics (state_with_list [''cpu_clock''])) = Some [''wall_clock'']"
    by (simp add: deref_def new_list_def state_with_list_def loaded_def)
  have h2: "deref (state_with_list [''cpu_clock'']) 3 = Some [''cpu_clock'']"
    by (simp add: deref_def new_list_def state_with_list_def loaded_def)
  have h3: "''components'' \<notin> set (map fst ([] :: kwargs))" by simp
  from marker_components_prepend_metrics [OF h1 h2 h3] h1 h2 h3 show ?thesis by blast
qed

section \<open>parse_args and markers\<close>

lemma wf_loaded: "wf (loaded st)"
  by (simp add: wf_def loaded_def)

lemma parse_args_enabled:
  assumes "wf s" and "\<not> a_disable_prof a" and "a_metrics a = Some xs"
  shows "\<exists>s1. parse_args a s = Inr (a, s1) \<and> deref s1 (Metrics s1) = Some xs"
proof -
  let ?s2 = "snd (new_list xs (s\<lparr>initialized := True\<rparr>))"
  let ?m = "length (heap s)"
  let ?s4 = "?s2\<lparr>settings := (settings ?s2)\<lparr>enabled := True\<rparr>,
      Metrics := ?m, settings := known_settings a xs ((settings ?s2)\<lparr>enabled := True\<rparr>)\<rparr>"
  have ma: "metrics_arg a (s\<lparr>initialized := True\<rparr>) = (?m, ?s2)"
    using assms(3) by (simp add: metrics_arg_def new_list_def)
  have d: "deref ?s4 ?m = Some xs" by (simp add: deref_def new_list_def)
  have dd: "deref ?s4 (components_default ?s4) = Some (heap s ! components_default s)"
    using assms(1) by (simp add: deref_def new_list_def wf_def nth_append)
  have "\<exists>p s5. make_prof a ?s4 = Inr (p, s5) \<and> deref s5 (Metrics s5) = Some xs"
  proof (cases "a_profile a \<or> a_trace a")
    case True
    then show ?thesis
      using d by (auto simp: make_prof_def profile_init_def trace_init_def bind_def star_sig_def)
  next
    case False
    have mi: "marker_init ?s4 [] [] =
        Inr (Marker (fst (new_list (xs @ heap s ! components_default s) ?s4)) [],
             snd (new_list (xs @ heap s ! components_default s) ?s4))"
      using d dd by (simp add: marker_init_def bind_marker_default arg_def split: prod.splits)
    have "deref (snd (new_list (xs @ heap s ! components_default s) ?s4))
        (Metrics (snd (new_list (xs @ heap s ! components_default s) ?s4))) = Some xs"
      by (simp add: deref_def new_list_def nth_append)
    with False mi show ?thesis by (simp add: make_prof_def)
  qed
  then obtain p s5 where mp: "make_prof a ?s4 = Inr (p, s5)"
    and d5: "deref s5 (Metrics s5) = Some xs" by blast
  have "parse_args a s = Inr (a, s5\<lparr>builtins := (builtins s5)(''mlperf_prof.record'' \<mapsto> p)\<rparr>)"
    using assms(2) ma mp by (simp add: parse_args_def Let_def deref_def new_list_def)
  moreover have "deref (s5\<lparr>builtins := (builtins s5)(''mlperf_prof.record'' \<mapsto> p)\<rparr>)
      (Metrics (s5\<lparr>builtins := (builtins s5)(''mlperf_prof.record'' \<mapsto> p)\<rparr>)) = Some xs"
    using d5 by (simp add: deref_def split: if_splits)
  ultimately show ?thesis by blast
qed

text \<open>
  Claim C7. After \<^verbatim>\<open>parse_args\<close> has run with profiling enabled and the metrics
  \<^verbatim>\<open>['wall_clock', 'cpu_clock']\<close>, a marker constructed with an empty component list has
  exactly the components \<^verbatim>\<open>wall_clock\<close>, \<^verbatim>\<open>cpu_clock\<close>.
\<close>

theorem empty_marker_after_parse_args:
  assumes "wf s" and "\<not> a_disable_prof a"
    and "a_metrics a = Some [''wall_clock'', ''cpu_clock'']"
  shows "\<exists>s1 m s3. parse_args a s = Inr (a, s1) \<and>
           marker_init (snd (new_list [] s1)) [PRef (fst (new_list [] s1))] [] = Inr (m, s3) \<and>
           components s3 m = Some [''wall_clock'', ''cpu_clock'']"
proof -
  from parse_args_enabled [OF assms] obtain s1 where
    pa: "parse_args a s = Inr (a, s1)"
    and d1: "deref s1 (Metrics s1) = Some [''wall_clock'', ''cpu_clock'']" by blast
  let ?s2 = "snd (new_list [] s1)"
  let ?r = "fst (new_list [] s1)"
  have m2: "deref ?s2 (Metrics ?s2) = Some [''wall_clock'', ''cpu_clock'']"
    using deref_new_list_old [OF d1, of "[]"] by (simp add: new_list_def)
  have r2: "deref ?s2 ?r = Some []" by (rule deref_new_list_new)
  from marker_init_prepends [OF m2 r2, of "[]"] obtain m s3 where
    "marker_init ?s2 [PRef ?r] [] = Inr (m, s3)"
    "components s3 m = Some ([''wall_clock'', ''cpu_clock''] @ [])" by auto
  with pa show ?thesis by auto
qed

text \<open>C7 in the loaded module, for the command line \<^verbatim>\<open>-c wall_clock cpu_clock\<close>.\<close>

theorem empty_marker_after_parse_args_witness:
  "wf (loaded example_settings) \<and> \<not> a_disable_prof example_args \<and>
   a_metrics example_args = Some [''wall_clock'', ''cpu_clock''] \<and>
   (\<exists>s1 m s3. parse_args example_args (loaded example_settings) = Inr (example_args, s1) \<and>
      marker_init (snd (new_list [] s1)) [PRef (fst (new_list [] s1))] [] = Inr (m, s3) \<and>
      components s3 m = Some [''wall_clock'', ''cpu_clock''])"
proof -
  have h1: "wf (loaded example_settings)" by (rule wf_loaded)
  have h2: "\<not> a_disable_prof example_args" by (simp add: example_args_def)
  have h3: "a_metrics example_args = Some [''wall_clock'', ''cpu_clock'']"
    by (simp add: example_args_def)
  from empty_marker_after_parse_args [OF h1 h2 h3] h1 h2 h3 show ?thesis by blast
qed

lemma marker_init_heap:
  assumes "marker_init s pos kw = Inr (m, s1)"
  shows "\<exists>kw' xs. m = Marker (length (heap s)) kw' \<and> heap s1 = heap s @ [xs] \<and>
           Metrics s1 = Metrics s \<and> components_default s1 = components_default s"
proof (cases "bind (marker_sig s) pos kw")
  case (Inl e)
  with assms show ?thesis by (simp add: marker_init_def)
next
  case (Inr b)
  show ?thesis
  proof (cases "arg b ''components''")
    case (PRef x)
    with assms Inr show ?thesis
      by (auto simp: marker_init_def new_list_def split: option.splits)
  qed (use assms Inr in \<open>simp_all add: marker_init_def\<close>)
qed

lemma make_prof_heap:
  assumes "make_prof a s = Inr (p, s')"
  shows "\<exists>ys. heap s' = heap s @ ys"
proof (cases "a_profile a \<or> a_trace a")
  case True
  with assms show ?thesis
    by (auto simp: make_prof_def split: if_splits sum.splits)
next
  case False
  with assms have "marker_init s [] [] = Inr (p, s')" by (simp add: make_prof_def)
  from marker_init_heap [OF this] show ?thesis by blast
qed

lemma parse_args_heap:
  assumes "parse_args a s = Inr (a', s')"
  shows "\<exists>ys. heap s' = heap s @ ys"
proof (cases "a_disable_prof a")
  case True
  with assms show ?thesis
    by (auto simp: parse_args_def metrics_arg_def new_list_def Let_def split: option.splits prod.splits)
next
  case False
  obtain m s2 where ma: "metrics_arg a (s\<lparr>initialized := True\<rparr>) = (m, s2)"
    by (cases "metrics_arg a (s\<lparr>initialized := True\<rparr>)")
  then have h2: "\<exists>ys. heap s2 = heap s @ ys"
    by (auto simp: metrics_arg_def new_list_def split: option.splits)
  from assms False ma obtain ms p s5 where
    mp: "make_prof a (s2\<lparr>settings := (settings s2)\<lparr>enabled := True\<rparr>,
            Metrics := m, settings := known_settings a ms ((settings s2)\<lparr>enabled := True\<rparr>)\<rparr>) = Inr (p, s5)"
    and s': "s' = s5\<lparr>builtins := (builtins s5)(''mlperf_prof.record'' \<mapsto> p)\<rparr>"
    by (auto simp: parse_args_def Let_def split: option.splits sum.splits)
  from make_prof_heap [OF mp] obtain zs where "heap s5 = heap s2 @ zs" by auto
  with h2 s' show ?thesis by auto
qed

lemma deref_append:
  "r < length (heap s) \<Longrightarrow> heap s' = heap s @ ys \<Longrightarrow> deref s' r = deref s r"
  by (simp add: deref_def nth_append)

text \<open>
  Claim C8. The component list of a marker is a list object of its own, and
  \<^verbatim>\<open>parse_args\<close> rebinds the global name \<^verbatim>\<open>_Metrics\<close> and writes no existing list: in
  every later state \<open>t\<close> in which the marker still has the components it was constructed
  with, a run of \<^verbatim>\<open>parse_args\<close> leaves them as they are, whatever it does to
  \<^verbatim>\<open>_Metrics\<close>.
\<close>

theorem marker_components_survive_parse_args:
  assumes "marker_init s pos kw = Inr (m, s1)"
    and "components t m = components s1 m"
    and "parse_args a t = Inr (a', t')"
  shows "components t' m = components s1 m \<and> components s1 m \<noteq> None"
proof -
  from marker_init_heap [OF assms(1)] obtain kw' xs where
    m: "m = Marker (length (heap s)) kw'" and h1: "heap s1 = heap s @ [xs]" by blast
  from h1 have c1: "components s1 m = Some xs" by (simp add: m deref_def)
  with assms(2) have "deref t (length (heap s)) = Some xs" by (simp add: m)
  then have lt: "length (heap s) < length (heap t)" by (simp add: deref_def split: if_splits)
  from parse_args_heap [OF assms(3)] obtain ys where h2: "heap t' = heap t @ ys" by blast
  from deref_append [OF lt h2] have "deref t' (length (heap s)) = deref t (length (heap s))" .
  with assms(2) c1 show ?thesis by (simp add: m)
qed

text \<open>
  C8 for the marker built at load time: it keeps \<^verbatim>\<open>['wall_clock']\<close> while the global list
  becomes \<^verbatim>\<open>['wall_clock', 'cpu_clock']\<close>.
\<close>

theorem marker_components_survive_parse_args_witness:
  "\<exists>m s1 s2. marker_init (loaded example_settings) [] [] = Inr (m, s1) \<and>
     parse_args example_args s1 = Inr (example_args, s2) \<and>
     components s2 m = components s1 m \<and> components s1 m \<noteq> None \<and>
     components s1 m = Some [''wall_clock''] \<and>
     deref s2 (Metrics s2) = Some [''wall_clock'', ''cpu_clock'']"
proof -
  let ?s1 = "snd (new_list [''wall_clock''] (loaded example_settings))"
  have mi: "marker_init (loaded example_settings) [] [] = Inr (Marker 3 [], ?s1)"
    by (simp add: marker_init_def bind_def marker_sig_def arg_def deref_def new_list_def loaded_def)
  have c1: "components ?s1 (Marker 3 []) = Some [''wall_clock'']"
    by (simp add: deref_def new_list_def loaded_def)
  have w1: "wf ?s1" by (simp add: wf_def new_list_def loaded_def)
  have h2: "\<not> a_disable_prof example_args" by (simp add: example_args_def)
  have h3: "a_metrics example_args = Some [''wall_clock'', ''cpu_clock'']"
    by (simp add: example_args_def)
  from parse_args_enabled [OF w1 h2 h3] obtain s2 where
    pa: "parse_args example_args ?s1 = Inr (example_args, s2)"
    and d2: "deref s2 (Metrics s2) = Some [''wall_clock'', ''cpu_clock'']" by blast
  from marker_components_survive_parse_args [OF mi refl pa] mi pa c1 d2 show ?thesis by auto
qed

section \<open>The scoped region of the except branch\<close>

text \<open>
  With the marker of the except branch, a body that raises has its exception printed by
  \<^verbatim>\<open>__exit__\<close>, which returns \<^verbatim>\<open>None\<close>, and the \<^verbatim>\<open>with\<close> statement raises it again.
\<close>

lemma fb_with_raises:
  assumes "body w = (Inl e, w')"
  shows "with_stmt (fb_marker_enter FbMarker [] []) (fb_marker_exit FbMarker) body w =
           (Inl e, w'\<lparr>stderr := stderr w' @ [(exc_kind e, e, take 5 (exc_tb e))]\<rparr>)"
  using assms by (simp add: with_stmt_def fb_marker_enter_def fb_marker_exit_def)

end
